theory Spec2Isabelle
  imports Complex_Main "HOL-Library.Sublist"
begin

section \<open>Values of the program\<close>

text \<open>
  The payload handed to \<open>process_kenya_data\<close> is whatever \<open>response.json()\<close> decoded:
  a JSON value. Python's \<open>None\<close> is \<open>JNull\<close>. A JSON object is a Python dict, kept as
  an association list in insertion order; its keys are distinct.

  Numbers (Python ints and floats) are exact rationals here: the arithmetic of the
  program is modelled without binary64 rounding, infinities or NaN.
\<close>

datatype json =
    JNull
  | JBool bool
  | JNum rat
  | JStr string
  | JArr "json list"
  | JObj "(string \<times> json) list"

datatype error = TypeError | AttributeError | KeyError | ZeroDivisionError

record power_record =
  source :: string
  value' :: rat
  percentage :: rat

record snapshot =
  records :: "power_record list"
  timestamp :: json
  total :: rat
  data_source :: string

section \<open>Python operations used by the program\<close>

text \<open>Truth value of an object, as \<open>use_live and api_data and ...\<close> tests it.\<close>

fun truthy :: "json \<Rightarrow> bool" where
  "truthy JNull = False"
| "truthy (JBool b) = b"
| "truthy (JNum x) = (x \<noteq> 0)"
| "truthy (JStr s) = (s \<noteq> [])"
| "truthy (JArr xs) = (xs \<noteq> [])"
| "truthy (JObj kvs) = (kvs \<noteq> [])"

fun is_substring :: "string \<Rightarrow> string \<Rightarrow> bool" where
  "is_substring p [] = (p = [])"
| "is_substring p (c # cs) = (prefix p (c # cs) \<or> is_substring p cs)"

text \<open>
  \<open>k in x\<close> for a string \<open>k\<close>: key membership on a dict, element membership on a
  list, substring test on a string, and a TypeError on anything else.
\<close>

fun py_in :: "string \<Rightarrow> json \<Rightarrow> error + bool" where
  "py_in k (JObj kvs) = Inr (k \<in> set (map fst kvs))"
| "py_in k (JArr xs) = Inr (JStr k \<in> set xs)"
| "py_in k (JStr s) = Inr (is_substring k s)"
| "py_in k JNull = Inl TypeError"
| "py_in k (JBool b) = Inl TypeError"
| "py_in k (JNum x) = Inl TypeError"

text \<open>
  \<open>x[k]\<close> for a string \<open>k\<close>. A list or a string cannot be indexed by a string, and
  nothing else is subscriptable.
\<close>

fun py_getitem :: "json \<Rightarrow> string \<Rightarrow> error + json" where
  "py_getitem (JObj kvs) k = (case map_of kvs k of Some v \<Rightarrow> Inr v | None \<Rightarrow> Inl KeyError)"
| "py_getitem x k = Inl TypeError"

text \<open>\<open>x.get(k, d)\<close> on a dict.\<close>

fun py_get :: "json \<Rightarrow> string \<Rightarrow> json \<Rightarrow> json" where
  "py_get (JObj kvs) k d = (case map_of kvs k of Some v \<Rightarrow> v | None \<Rightarrow> d)"
| "py_get x k d = d"

text \<open>\<open>x.items()\<close>: only a dict has the attribute.\<close>

fun py_items :: "json \<Rightarrow> error + (string \<times> json) list" where
  "py_items (JObj kvs) = Inr kvs"
| "py_items x = Inl AttributeError"

text \<open>
  The test \<open>value is not None and value > 0\<close>. The result is \<open>None\<close> when the entry
  is skipped and the number when it is kept. A bool is an int in Python
  (\<open>True > 0\<close> holds and \<open>True\<close> counts as 1); comparing a string, a list or a dict
  with \<open>0\<close> raises.
\<close>

fun positive_value :: "json \<Rightarrow> error + rat option" where
  "positive_value JNull = Inr None"
| "positive_value (JNum x) = Inr (if x > 0 then Some x else None)"
| "positive_value (JBool b) = Inr (if b then Some 1 else None)"
| "positive_value (JStr s) = Inl TypeError"
| "positive_value (JArr xs) = Inl TypeError"
| "positive_value (JObj kvs) = Inl TypeError"

text \<open>True division raises on a zero divisor.\<close>

definition py_truediv :: "rat \<Rightarrow> rat \<Rightarrow> error + rat" where
  "py_truediv a b = (if b = 0 then Inl ZeroDivisionError else Inr (a / b))"

subsection \<open>\<open>str.title()\<close>\<close>

text \<open>
  A letter that follows a letter is lowered, any other letter is raised, and every
  other character is kept. Letters are the ASCII letters.
\<close>

definition is_upper :: "char \<Rightarrow> bool" where
  "is_upper c = ((65::nat) \<le> of_char c \<and> of_char c \<le> (90::nat))"

definition is_lower :: "char \<Rightarrow> bool" where
  "is_lower c = ((97::nat) \<le> of_char c \<and> of_char c \<le> (122::nat))"

definition is_cased :: "char \<Rightarrow> bool" where
  "is_cased c = (is_upper c \<or> is_lower c)"

definition to_upper :: "char \<Rightarrow> char" where
  "to_upper c = (if is_lower c then char_of (of_char c - (32::nat)) else c)"

definition to_lower :: "char \<Rightarrow> char" where
  "to_lower c = (if is_upper c then char_of (of_char c + (32::nat)) else c)"

fun title_from :: "bool \<Rightarrow> string \<Rightarrow> string" where
  "title_from prev [] = []"
| "title_from prev (c # cs) =
     (if prev then to_lower c else to_upper c) # title_from (is_cased c) cs"

definition title :: "string \<Rightarrow> string" where
  "title s = title_from False s"

section \<open>The tables\<close>

text \<open>
  The decimal literals of the fallback table are taken at their decimal value
  (\<open>36.2\<close> is \<open>362 / 10\<close>). Both dicts are kept in the order of the source.
\<close>

definition KENYA_ENERGY_MIX :: "(string \<times> rat) list" where
  "KENYA_ENERGY_MIX =
     [(''Hydro'', 362 / 10),
      (''Geothermal'', 311 / 10),
      (''Thermal (Oil/Gas)'', 127 / 10),
      (''Wind'', 89 / 10),
      (''Solar'', 68 / 10),
      (''Biomass'', 21 / 10),
      (''Battery Storage'', 12 / 10),
      (''Imports'', 1)]"

definition source_mappings :: "(string \<times> string) list" where
  "source_mappings =
     [(''hydro'', ''Hydro''),
      (''geothermal'', ''Geothermal''),
      (''oil'', ''Thermal (Oil)''),
      (''gas'', ''Natural Gas''),
      (''wind'', ''Wind''),
      (''solar'', ''Solar''),
      (''biomass'', ''Biomass''),
      (''battery'', ''Battery Storage''),
      (''coal'', ''Coal''),
      (''nuclear'', ''Nuclear''),
      (''unknown'', ''Other'')]"


section \<open>\<open>process_kenya_data\<close>\<close>

text \<open>\<open>source_mappings.get(source, source.title())\<close>\<close>

definition display_name :: "string \<Rightarrow> string" where
  "display_name src =
     (case map_of source_mappings src of Some n \<Rightarrow> n | None \<Rightarrow> title src)"

text \<open>
  The first loop of the live path, over \<open>mix.items()\<close>, with the list of records and
  the running total as its state.
\<close>

fun live_loop ::
  "(string \<times> json) list \<Rightarrow> power_record list \<times> rat \<Rightarrow> error + (power_record list \<times> rat)"
where
  "live_loop [] st = Inr st"
| "live_loop ((src, v) # rest) (recs, tot) =
     (case positive_value v of
        Inl e \<Rightarrow> Inl e
      | Inr None \<Rightarrow> live_loop rest (recs, tot)
      | Inr (Some x) \<Rightarrow>
          live_loop rest
            (recs @ [\<lparr>source = display_name src, value' = x, percentage = 0\<rparr>], tot + x))"

text \<open>The second loop: \<open>(record["value"] / total * 100) if total > 0 else 0\<close>.\<close>

fun set_percentages :: "rat \<Rightarrow> power_record list \<Rightarrow> error + power_record list" where
  "set_percentages tot [] = Inr []"
| "set_percentages tot (r # rs) =
     (case (if tot > 0
            then (case py_truediv (value' r) tot of Inl e \<Rightarrow> Inl e | Inr q \<Rightarrow> Inr (q * 100))
            else Inr 0) of
        Inl e \<Rightarrow> Inl e
      | Inr p \<Rightarrow>
          (case set_percentages tot rs of
             Inl e \<Rightarrow> Inl e
           | Inr rs' \<Rightarrow> Inr (r\<lparr>percentage := p\<rparr> # rs')))"

text \<open>The fallback branch; \<open>now\<close> is \<open>datetime.now().isoformat()\<close>.\<close>

definition fallback_records :: "power_record list" where
  "fallback_records =
     map (\<lambda>(src, pct). \<lparr>source = src, value' = (pct / 100) * 2800, percentage = pct\<rparr>)
       KENYA_ENERGY_MIX"

definition fallback :: "string \<Rightarrow> snapshot" where
  "fallback now =
     \<lparr>records = fallback_records,
      timestamp = JStr now,
      total = sum_list (map snd KENYA_ENERGY_MIX) * 28,
      data_source = ''Estimated Data''\<rparr>"

definition live :: "json \<Rightarrow> string \<Rightarrow> error + snapshot" where
  "live api_data now =
     (case py_getitem api_data ''powerProductionBreakdown'' of
        Inl e \<Rightarrow> Inl e
      | Inr mix \<Rightarrow>
          (let ts = py_get api_data ''datetime'' (JStr now) in
           case py_items mix of
             Inl e \<Rightarrow> Inl e
           | Inr items \<Rightarrow>
               (case live_loop items ([], 0) of
                  Inl e \<Rightarrow> Inl e
                | Inr (recs, tot) \<Rightarrow>
                    (case set_percentages tot recs of
                       Inl e \<Rightarrow> Inl e
                     | Inr recs' \<Rightarrow>
                         Inr \<lparr>records = recs', timestamp = ts, total = tot,
                              data_source = ''Live Data''\<rparr>))))"

definition process_kenya_data :: "json \<Rightarrow> bool \<Rightarrow> string \<Rightarrow> error + snapshot" where
  "process_kenya_data api_data use_live now =
     (if \<not> use_live then Inr (fallback now)
      else if \<not> truthy api_data then Inr (fallback now)
      else (case py_in ''powerProductionBreakdown'' api_data of
              Inl e \<Rightarrow> Inl e
            | Inr False \<Rightarrow> Inr (fallback now)
            | Inr True \<Rightarrow> live api_data now))"


section \<open>\<open>get_kenya_power_data\<close>\<close>

text \<open>
  The network is the environment of the function. Either \<open>requests.get\<close> raised
  (timeout, connection error) with some message, or it returned a response with a
  status code, whose \<open>json()\<close> method either raises with some message or returns the
  decoded body.
\<close>

datatype http_outcome =
    GetRaised string
  | Response int "string + json"

text \<open>The exception caught by \<open>except Exception as e\<close>.\<close>

datatype exn = RequestError string | DecodeError string | PyError error

text \<open>
  The function returns the pair \<open>(data, True)\<close> or \<open>(None, False)\<close>; the second
  component of the model's result is the list of exceptions whose text was shown by
  \<open>st.warning("Live data unavailable: " + str(e))\<close>.
\<close>

fun get_kenya_power_data :: "http_outcome \<Rightarrow> (json \<times> bool) \<times> exn list" where
  "get_kenya_power_data (GetRaised msg) = ((JNull, False), [RequestError msg])"
| "get_kenya_power_data (Response status_code body) =
     (if status_code = 200
      then (case body of
              Inl msg \<Rightarrow> ((JNull, False), [DecodeError msg])
            | Inr data \<Rightarrow>
                (case py_in ''powerProductionBreakdown'' data of
                   Inl e \<Rightarrow> ((JNull, False), [PyError e])
                 | Inr True \<Rightarrow> ((data, True), [])
                 | Inr False \<Rightarrow> ((JNull, False), [])))
      else ((JNull, False), []))"

section \<open>The specification's view of the live path\<close>

text \<open>
  The numeric reading of a breakdown value: a number is itself, a bool is 0 or 1, and
  an absent value (\<open>None\<close>) or anything else has none.
\<close>

fun number_of :: "json \<Rightarrow> rat option" where
  "number_of (JNum x) = Some x"
| "number_of (JBool b) = Some (if b then 1 else 0)"
| "number_of v = None"

text \<open>
  The pairs of the breakdown whose value is present and strictly positive, in the
  order of the breakdown.
\<close>

fun positive_entries :: "(string \<times> json) list \<Rightarrow> (string \<times> rat) list" where
  "positive_entries [] = []"
| "positive_entries ((k, v) # rest) =
     (case number_of v of
        Some x \<Rightarrow> if x > 0 then (k, x) # positive_entries rest else positive_entries rest
      | None \<Rightarrow> positive_entries rest)"

text \<open>The record the specification asks for such a pair, given the total.\<close>

definition live_record :: "rat \<Rightarrow> string \<times> rat \<Rightarrow> power_record" where
  "live_record tot e =
     \<lparr>source = display_name (fst e), value' = snd e,
      percentage = (if tot > 0 then snd e / tot * 100 else 0)\<rparr>"

section \<open>Payloads used below\<close>



text \<open>Scenario A of the specification.\<close>

definition scenario_A_breakdown :: "(string \<times> json) list" where
  "scenario_A_breakdown =
     [(''hydro'', JNum 800), (''geothermal'', JNum 700),
      (''wind'', JNum 0), (''solar'', JNum (- 5))]"

definition scenario_A :: json where
  "scenario_A =
     JObj [(''powerProductionBreakdown'', JObj scenario_A_breakdown),
           (''datetime'', JStr ''2024-05-01T12:00:00Z'')]"

definition scenario_A_result :: snapshot where
  "scenario_A_result =
     \<lparr>records =
        [\<lparr>source = ''Hydro'', value' = 800, percentage = 160 / 3\<rparr>,
         \<lparr>source = ''Geothermal'', value' = 700, percentage = 140 / 3\<rparr>],
      timestamp = JStr ''2024-05-01T12:00:00Z'',
      total = 1500,
      data_source = ''Live Data''\<rparr>"


definition empty_breakdown :: json where
  "empty_breakdown = JObj [(''powerProductionBreakdown'', JObj [])]"

section \<open>The two loops of the live path\<close>

lemma positive_value_Some:
  "positive_value v = Inr (Some x) \<Longrightarrow> number_of v = Some x \<and> x > 0"
  by (cases v) (auto split: if_splits)

lemma positive_value_None:
  "positive_value v = Inr None \<Longrightarrow> (case number_of v of Some x \<Rightarrow> \<not> x > 0 | None \<Rightarrow> True)"
  by (cases v) (auto split: if_splits)

lemma live_loop_acc:
  "live_loop kvs (recs, tot) = Inr (recs', tot') \<Longrightarrow>
     recs' = recs @ map (\<lambda>e. \<lparr>source = display_name (fst e), value' = snd e, percentage = 0\<rparr>)
                      (positive_entries kvs)
     \<and> tot' = tot + sum_list (map snd (positive_entries kvs))"
proof (induction kvs arbitrary: recs tot)
  case Nil
  then show ?case by simp
next
  case (Cons kv kvs)
  obtain k v where kv: "kv = (k, v)" by (cases kv)
  show ?case
  proof (cases "positive_value v")
    case (Inl e)
    with Cons.prems kv show ?thesis by simp
  next
    case (Inr o1)
    show ?thesis
    proof (cases o1)
      case None
      with Inr Cons.prems kv have "live_loop kvs (recs, tot) = Inr (recs', tot')" by simp
      from Cons.IH[OF this] positive_value_None[of v] None Inr kv show ?thesis
        by (auto split: option.splits)
    next
      case (Some x)
      with Inr Cons.prems kv have
        "live_loop kvs (recs @ [\<lparr>source = display_name k, value' = x, percentage = 0\<rparr>], tot + x) = Inr (recs', tot')"
        by simp
      from Cons.IH[OF this] positive_value_Some[of v x] Some Inr kv show ?thesis by simp
    qed
  qed
qed


lemma set_percentages_pos:
  "tot > 0 \<Longrightarrow> set_percentages tot rs = Inr (map (\<lambda>r. r\<lparr>percentage := value' r / tot * 100\<rparr>) rs)"
  by (induction rs) (simp_all add: py_truediv_def)

lemma set_percentages_nonpos:
  "\<not> tot > 0 \<Longrightarrow> set_percentages tot rs = Inr (map (\<lambda>r. r\<lparr>percentage := 0\<rparr>) rs)"
  by (induction rs) simp_all

lemma set_percentages_eq:
  "set_percentages tot rs =
     Inr (map (\<lambda>r. r\<lparr>percentage := (if tot > 0 then value' r / tot * 100 else 0)\<rparr>) rs)"
  by (cases "tot > 0") (simp_all add: set_percentages_pos set_percentages_nonpos)

lemma live_result:
  assumes "live api now = Inr s"
  shows "\<exists>d kvs. api = JObj d \<and> map_of d ''powerProductionBreakdown'' = Some (JObj kvs) \<and>
           s = \<lparr>records = map (live_record (sum_list (map snd (positive_entries kvs))))
                             (positive_entries kvs),
                timestamp = py_get api ''datetime'' (JStr now),
                total = sum_list (map snd (positive_entries kvs)),
                data_source = ''Live Data''\<rparr>"
proof -
  from assms obtain mix where mix: "py_getitem api ''powerProductionBreakdown'' = Inr mix"
    by (auto simp: live_def split: sum.splits)
  then obtain d where d: "api = JObj d" and md: "map_of d ''powerProductionBreakdown'' = Some mix"
    by (cases api) (auto split: option.splits)
  from assms mix obtain kvs where items: "py_items mix = Inr kvs"
    by (auto simp: live_def Let_def split: sum.splits)
  then have mixo: "mix = JObj kvs" by (cases mix) auto
  from assms mix items obtain recs tot where
    ll: "live_loop kvs ([], 0) = Inr (recs, tot)"
    by (auto simp: live_def Let_def split: sum.splits)
  from live_loop_acc[OF ll] have
    recs: "recs = map (\<lambda>e. \<lparr>source = display_name (fst e), value' = snd e, percentage = 0\<rparr>)
                      (positive_entries kvs)"
    and tot: "tot = sum_list (map snd (positive_entries kvs))" by simp_all
  from assms mix items ll have
    s: "s = \<lparr>records = map (\<lambda>r. r\<lparr>percentage := (if tot > 0 then value' r / tot * 100 else 0)\<rparr>) recs,
            timestamp = py_get api ''datetime'' (JStr now), total = tot,
            data_source = ''Live Data''\<rparr>"
    by (auto simp: live_def Let_def set_percentages_eq)
  have "map (\<lambda>r. r\<lparr>percentage := (if tot > 0 then value' r / tot * 100 else 0)\<rparr>) recs
        = map (live_record tot) (positive_entries kvs)"
    unfolding recs by (simp add: live_record_def)
  with s tot d md mixo show ?thesis by simp
qed

lemma process_cases:
  assumes "process_kenya_data api ul now = Inr s"
  shows "s = fallback now \<or> live api now = Inr s"
  using assms by (auto simp: process_kenya_data_def split: if_splits sum.splits bool.splits)

lemma fallback_not_live: "data_source (fallback now) \<noteq> ''Live Data''"
  by (simp add: fallback_def)






lemma positive_entries_origin:
  "(k, x) \<in> set (positive_entries kvs) \<Longrightarrow>
     \<exists>v. (k, v) \<in> set kvs \<and> number_of v = Some x \<and> x > 0"
  by (induction kvs rule: positive_entries.induct) (auto split: option.splits if_splits)

lemma positive_entries_length:
  "length (positive_entries kvs)
     = length (filter (\<lambda>kv. case number_of (snd kv) of Some x \<Rightarrow> x > 0 | None \<Rightarrow> False) kvs)"
  by (induction kvs rule: positive_entries.induct) (auto split: option.splits)

section \<open>Which branch runs\<close>

lemma process_fallback:
  "\<not> use_live \<or> \<not> truthy api_data \<or> py_in ''powerProductionBreakdown'' api_data = Inr False
   \<Longrightarrow> process_kenya_data api_data use_live now = Inr (fallback now)"
  by (auto simp: process_kenya_data_def)

lemma process_live:
  "use_live \<Longrightarrow> truthy api_data \<Longrightarrow> py_in ''powerProductionBreakdown'' api_data = Inr True
   \<Longrightarrow> process_kenya_data api_data use_live now = live api_data now"
  by (simp add: process_kenya_data_def)

lemma live_label: "live api_data now = Inr s \<Longrightarrow> data_source s = ''Live Data''"
  by (auto dest!: live_result)

lemma live_result_of:
  assumes "map_of d ''powerProductionBreakdown'' = Some (JObj kvs)"
    and "process_kenya_data (JObj d) use_live now = Inr s"
    and "data_source s = ''Live Data''"
  shows "s = \<lparr>records = map (live_record (sum_list (map snd (positive_entries kvs))))
                         (positive_entries kvs),
              timestamp = py_get (JObj d) ''datetime'' (JStr now),
              total = sum_list (map snd (positive_entries kvs)),
              data_source = ''Live Data''\<rparr>"
proof -
  from process_cases[OF assms(2)] assms(3) have "live (JObj d) now = Inr s"
    using fallback_not_live by auto
  from live_result[OF this] assms(1) show ?thesis by auto
qed

lemma map_of_in_keys: "map_of d k = Some v \<Longrightarrow> k \<in> set (map fst d)"
  by (induction d) (auto split: if_splits)




section \<open>Evaluating the fallback table and scenario A\<close>


lemma fallback_label: "data_source (fallback now) = ''Estimated Data''"
  by (simp add: fallback_def)



lemma display_name_hydro: "display_name ''hydro'' = ''Hydro''"
  by (simp add: display_name_def source_mappings_def)

lemma display_name_geothermal: "display_name ''geothermal'' = ''Geothermal''"
  by (simp add: display_name_def source_mappings_def)

lemma title_tidal: "title ''tidal'' = ''Tidal''"
  by code_simp

lemma display_name_tidal: "display_name ''tidal'' = title ''tidal''"
  by (simp add: display_name_def source_mappings_def)

lemma scenario_A_run: "process_kenya_data scenario_A True now = Inr scenario_A_result"
  by (simp add: process_kenya_data_def scenario_A_def scenario_A_breakdown_def
      scenario_A_result_def live_def py_truediv_def display_name_hydro display_name_geothermal)

lemma scenario_A_run_dict:
  "process_kenya_data
     (JObj [(''powerProductionBreakdown'', JObj scenario_A_breakdown),
            (''datetime'', JStr ''2024-05-01T12:00:00Z'')]) True now = Inr scenario_A_result"
  using scenario_A_run[of now] by (simp add: scenario_A_def)

lemma scenario_A_lookup:
  "map_of [(''powerProductionBreakdown'', JObj scenario_A_breakdown),
           (''datetime'', JStr ''2024-05-01T12:00:00Z'')] ''powerProductionBreakdown''
     = Some (JObj scenario_A_breakdown)"
  by simp

lemma scenario_A_label: "data_source scenario_A_result = ''Live Data''"
  by (simp add: scenario_A_result_def)

lemma scenario_A_positive:
  "positive_entries scenario_A_breakdown = [(''hydro'', 800), (''geothermal'', 700)]"
  by (simp add: scenario_A_breakdown_def)


section \<open>The claims\<close>








text \<open>
  C4, as stated: an empty breakdown gives the same result as a fetch failure. It does
  not: the live branch runs, with no record, total 0 and the label "Live Data".
\<close>

theorem empty_breakdown_not_fallback:
  "process_kenya_data empty_breakdown True ''2024-05-01T12:00:05''
     = Inr \<lparr>records = [], timestamp = JStr ''2024-05-01T12:00:05'', total = 0,
            data_source = ''Live Data''\<rparr>
   \<and> process_kenya_data empty_breakdown True ''2024-05-01T12:00:05''
     \<noteq> process_kenya_data JNull False ''2024-05-01T12:00:05''"
  by (simp add: process_kenya_data_def empty_breakdown_def live_def fallback_def)

text \<open>
  C4, amended. A payload whose breakdown field is present and empty takes the live
  branch: no record, total 0, the payload's datetime (or the current time) and the
  label "Live Data". The fallback records are produced exactly when \<open>use_live\<close> is
  false, or \<open>api_data\<close> is \<open>None\<close> or empty, or the breakdown field is absent.
\<close>

theorem empty_breakdown_is_live:
  "(map_of d ''powerProductionBreakdown'' = Some (JObj []) \<longrightarrow>
      process_kenya_data (JObj d) True now
        = Inr \<lparr>records = [], timestamp = py_get (JObj d) ''datetime'' (JStr now), total = 0,
               data_source = ''Live Data''\<rparr>)
   \<and> (process_kenya_data api_data use_live now = Inr s \<longrightarrow>
        (data_source s = ''Estimated Data'' \<longleftrightarrow>
           \<not> use_live \<or> \<not> truthy api_data
           \<or> py_in ''powerProductionBreakdown'' api_data = Inr False))"
proof (intro conjI impI)
  assume m: "map_of d ''powerProductionBreakdown'' = Some (JObj [])"
  then have "''powerProductionBreakdown'' \<in> set (map fst d)"
    by (rule map_of_in_keys)
  moreover from m have "d \<noteq> []" by auto
  ultimately have "process_kenya_data (JObj d) True now = live (JObj d) now"
    by (simp add: process_live)
  with m show "process_kenya_data (JObj d) True now
        = Inr \<lparr>records = [], timestamp = py_get (JObj d) ''datetime'' (JStr now), total = 0,
               data_source = ''Live Data''\<rparr>"
    by (simp add: live_def)
next
  assume run: "process_kenya_data api_data use_live now = Inr s"
  show "data_source s = ''Estimated Data'' \<longleftrightarrow>
           \<not> use_live \<or> \<not> truthy api_data
           \<or> py_in ''powerProductionBreakdown'' api_data = Inr False"
  proof
    assume est: "data_source s = ''Estimated Data''"
    show "\<not> use_live \<or> \<not> truthy api_data
          \<or> py_in ''powerProductionBreakdown'' api_data = Inr False"
    proof (rule ccontr)
      assume "\<not> ?thesis"
      then have ul: use_live and tr: "truthy api_data"
        and ne: "py_in ''powerProductionBreakdown'' api_data \<noteq> Inr False" by auto
      from run ul tr ne have "live api_data now = Inr s"
        by (auto simp: process_kenya_data_def split: sum.splits bool.splits)
      from live_label[OF this] est show False by simp
    qed
  next
    assume "\<not> use_live \<or> \<not> truthy api_data
            \<or> py_in ''powerProductionBreakdown'' api_data = Inr False"
    from process_fallback[OF this, of now] run have "s = fallback now" by simp
    then show "data_source s = ''Estimated Data''" by (simp add: fallback_label)
  qed
qed

theorem empty_breakdown_is_live_witness:
  "map_of [(''powerProductionBreakdown'', JObj [])] ''powerProductionBreakdown'' = Some (JObj [])
   \<and> process_kenya_data (JObj [(''powerProductionBreakdown'', JObj [])]) True
        ''2024-05-01T12:00:05''
      = Inr \<lparr>records = [], timestamp = JStr ''2024-05-01T12:00:05'', total = 0,
             data_source = ''Live Data''\<rparr>
   \<and> process_kenya_data JNull False ''2024-05-01T12:00:05''
      = Inr (fallback ''2024-05-01T12:00:05'')
   \<and> data_source (fallback ''2024-05-01T12:00:05'') = ''Estimated Data''"
proof -
  have run: "process_kenya_data JNull False ''2024-05-01T12:00:05''
      = Inr (fallback ''2024-05-01T12:00:05'')"
    by (simp add: process_fallback)
  from empty_breakdown_is_live[of "[(''powerProductionBreakdown'', JObj [])]"
      "''2024-05-01T12:00:05''" JNull False "fallback ''2024-05-01T12:00:05''"] run
  show ?thesis by simp
qed

text \<open>
  C5. On the live path the records correspond, in order, to the entries of the
  breakdown whose value is present and strictly positive: an entry whose value is
  \<open>None\<close>, zero or negative produces no record, and the value of every record is the
  strictly positive value of an entry of the breakdown.
\<close>

theorem live_records_are_positive_entries:
  assumes "map_of d ''powerProductionBreakdown'' = Some (JObj kvs)"
    and "process_kenya_data (JObj d) use_live now = Inr s"
    and "data_source s = ''Live Data''"
  shows "map value' (records s) = map snd (positive_entries kvs)
    \<and> length (records s)
        = length (filter (\<lambda>kv. case number_of (snd kv) of Some x \<Rightarrow> x > 0 | None \<Rightarrow> False) kvs)
    \<and> list_all (\<lambda>r. value' r > 0 \<and> (\<exists>kv \<in> set kvs. number_of (snd kv) = Some (value' r)))
         (records s)"
proof -
  note s = live_result_of[OF assms]
  have vals: "map value' (records s) = map snd (positive_entries kvs)"
    by (subst s) (simp add: live_record_def)
  have len: "length (records s) = length (positive_entries kvs)"
    using arg_cong[OF vals, of length] by simp
  have "\<forall>x \<in> set (map value' (records s)).
          x > 0 \<and> (\<exists>kv \<in> set kvs. number_of (snd kv) = Some x)"
    unfolding vals
  proof
    fix x assume "x \<in> set (map snd (positive_entries kvs))"
    then obtain k where "(k, x) \<in> set (positive_entries kvs)" by auto
    from positive_entries_origin[OF this] obtain v where
      "(k, v) \<in> set kvs" "number_of v = Some x" "x > 0" by blast
    then show "x > 0 \<and> (\<exists>kv \<in> set kvs. number_of (snd kv) = Some x)" by force
  qed
  then have "list_all (\<lambda>r. value' r > 0 \<and> (\<exists>kv \<in> set kvs. number_of (snd kv) = Some (value' r)))
      (records s)"
    by (simp add: list_all_iff)
  with vals len positive_entries_length show ?thesis by simp
qed

theorem live_records_are_positive_entries_witness:
  "map value' (records scenario_A_result) = map snd (positive_entries scenario_A_breakdown)
   \<and> map value' (records scenario_A_result) = [800, 700]
   \<and> length (records scenario_A_result) = 2
   \<and> list_all (\<lambda>r. value' r > 0) (records scenario_A_result)"
  using live_records_are_positive_entries[OF scenario_A_lookup scenario_A_run_dict scenario_A_label]
  by (simp add: scenario_A_positive scenario_A_result_def)

text \<open>
  C6. On the live path the display name of the record of an entry is the name the
  table \<open>source_mappings\<close> gives for its raw code when the code is a key of the table,
  and the title-cased raw code otherwise.
\<close>

theorem live_display_names:
  assumes "map_of d ''powerProductionBreakdown'' = Some (JObj kvs)"
    and "process_kenya_data (JObj d) use_live now = Inr s"
    and "data_source s = ''Live Data''"
  shows "map source (records s) = map (\<lambda>e. display_name (fst e)) (positive_entries kvs)
    \<and> (\<forall>k n. map_of source_mappings k = Some n \<longrightarrow> display_name k = n)
    \<and> (\<forall>k. k \<notin> set (map fst source_mappings) \<longrightarrow> display_name k = title k)"
proof -
  note s = live_result_of[OF assms]
  have "map source (records s) = map (\<lambda>e. display_name (fst e)) (positive_entries kvs)"
    by (subst s) (simp add: live_record_def)
  moreover have "\<forall>k n. map_of source_mappings k = Some n \<longrightarrow> display_name k = n"
    by (simp add: display_name_def)
  moreover have "\<forall>k. k \<notin> set (map fst source_mappings) \<longrightarrow> display_name k = title k"
  proof (intro allI impI)
    fix k assume "k \<notin> set (map fst source_mappings)"
    then have "map_of source_mappings k = None"
      by (simp add: map_of_eq_None_iff)
    then show "display_name k = title k" by (simp add: display_name_def)
  qed
  ultimately show ?thesis by blast
qed

theorem live_display_names_witness:
  "map source (records scenario_A_result) = [''Hydro'', ''Geothermal'']
   \<and> map source (records scenario_A_result)
       = map (\<lambda>e. display_name (fst e)) (positive_entries scenario_A_breakdown)
   \<and> map_of source_mappings ''hydro'' = Some ''Hydro''
   \<and> display_name ''hydro'' = ''Hydro''
   \<and> ''tidal'' \<notin> set (map fst source_mappings)
   \<and> display_name ''tidal'' = ''Tidal''"
proof -
  have hydro: "map_of source_mappings ''hydro'' = Some ''Hydro''"
    by (simp add: source_mappings_def)
  have tidal: "''tidal'' \<notin> set (map fst source_mappings)"
    by (simp add: source_mappings_def)
  note inst = live_display_names[OF scenario_A_lookup scenario_A_run_dict scenario_A_label]
  from inst have names: "map source (records scenario_A_result)
       = map (\<lambda>e. display_name (fst e)) (positive_entries scenario_A_breakdown)" by blast
  from inst hydro have h: "display_name ''hydro'' = ''Hydro''" by blast
  from inst tidal have t: "display_name ''tidal'' = title ''tidal''" by blast
  have "map source (records scenario_A_result) = [''Hydro'', ''Geothermal'']"
    by (simp add: scenario_A_result_def)
  with names hydro h tidal t title_tidal show ?thesis by simp
qed

text \<open>
  C7. Scenario A: the payload with hydro 800, geothermal 700, wind 0 and solar -5
  yields exactly two records, Hydro (800, 160/3) and Geothermal (700, 140/3), total
  1500, the label "Live Data" and the payload's datetime. The two percentages are
  within 0.01 of 53.33 and 46.67.
\<close>

theorem scenario_A_snapshot:
  "process_kenya_data scenario_A True now = Inr scenario_A_result
   \<and> length (records scenario_A_result) = 2
   \<and> \<bar>160 / 3 - 5333 / 100\<bar> < (1 / 100 :: rat)
   \<and> \<bar>140 / 3 - 4667 / 100\<bar> < (1 / 100 :: rat)"
  by (simp add: scenario_A_run scenario_A_result_def)

text \<open>
  C8, as stated: every outcome other than success is a failure result that carries a
  cause string. It does not: on a status other than 200, and on a decoded body
  without the breakdown field, the function returns \<open>(None, False)\<close> and shows no
  warning, so no cause exists anywhere.
\<close>

theorem failure_without_cause:
  "get_kenya_power_data (Response 404 (Inr scenario_A)) = ((JNull, False), [])
   \<and> get_kenya_power_data (Response 200 (Inr (JObj [(''message'', JStr ''no data'')])))
       = ((JNull, False), [])"
  by simp

text \<open>
  C8, amended. The function returns \<open>(data, True)\<close> exactly when the status is 200,
  the body decodes and the decoded body contains the breakdown field; it then shows
  no warning. Every other outcome returns \<open>(None, False)\<close>. A warning with the
  exception's text is shown exactly when an exception was raised inside the function:
  by the request, by the decoding, or by the membership test. No exception leaves the
  function: each of them is a branch that returns.
\<close>

theorem acquisition_outcomes:
  "(snd (fst (get_kenya_power_data r)) \<longleftrightarrow>
      (\<exists>data. r = Response 200 (Inr data)
              \<and> py_in ''powerProductionBreakdown'' data = Inr True))
   \<and> (snd (fst (get_kenya_power_data r)) \<longrightarrow>
        r = Response 200 (Inr (fst (fst (get_kenya_power_data r))))
        \<and> snd (get_kenya_power_data r) = [])
   \<and> (\<not> snd (fst (get_kenya_power_data r)) \<longrightarrow> fst (fst (get_kenya_power_data r)) = JNull)
   \<and> (snd (get_kenya_power_data r) \<noteq> [] \<longleftrightarrow>
        (\<exists>msg. r = GetRaised msg) \<or> (\<exists>msg. r = Response 200 (Inl msg))
        \<or> (\<exists>data e. r = Response 200 (Inr data)
                    \<and> py_in ''powerProductionBreakdown'' data = Inl e))"
proof (cases r)
  case (GetRaised msg)
  then show ?thesis by simp
next
  case (Response status_code body)
  show ?thesis
  proof (cases "status_code = 200")
    case False
    with Response show ?thesis by simp
  next
    case True
    show ?thesis
    proof (cases body)
      case (Inl msg)
      with Response True show ?thesis by simp
    next
      case (Inr data)
      show ?thesis
      proof (cases "py_in ''powerProductionBreakdown'' data")
        case (Inl e)
        with Response True Inr show ?thesis by simp
      next
        case inr: (Inr b)
        with Response True Inr show ?thesis by (cases b) simp_all
      qed
    qed
  qed
qed

theorem acquisition_outcomes_witness:
  "get_kenya_power_data (Response 200 (Inr scenario_A)) = ((scenario_A, True), [])
   \<and> py_in ''powerProductionBreakdown'' scenario_A = Inr True
   \<and> get_kenya_power_data (Response 503 (Inr scenario_A)) = ((JNull, False), [])
   \<and> snd (get_kenya_power_data (GetRaised ''Read timed out.'')) \<noteq> []"
proof -
  have key: "py_in ''powerProductionBreakdown'' scenario_A = Inr True"
    by (simp add: scenario_A_def)
  note ok = acquisition_outcomes[of "Response 200 (Inr scenario_A)"]
  note down = acquisition_outcomes[of "Response 503 (Inr scenario_A)"]
  note timeout = acquisition_outcomes[of "GetRaised ''Read timed out.''"]
  from ok key have live: "snd (fst (get_kenya_power_data (Response 200 (Inr scenario_A))))"
    by blast
  with ok have
    "Response 200 (Inr scenario_A)
       = Response 200 (Inr (fst (fst (get_kenya_power_data (Response 200 (Inr scenario_A))))))"
    and w: "snd (get_kenya_power_data (Response 200 (Inr scenario_A))) = []"
    by blast+
  then have d: "fst (fst (get_kenya_power_data (Response 200 (Inr scenario_A)))) = scenario_A"
    by simp
  from live d w have first:
    "get_kenya_power_data (Response 200 (Inr scenario_A)) = ((scenario_A, True), [])"
    by (simp add: prod_eq_iff)
  from down have nolive: "\<not> snd (fst (get_kenya_power_data (Response 503 (Inr scenario_A))))"
    by simp
  with down have n: "fst (fst (get_kenya_power_data (Response 503 (Inr scenario_A)))) = JNull"
    by blast
  from down have nw: "snd (get_kenya_power_data (Response 503 (Inr scenario_A))) = []"
    by simp
  from nolive n nw have second:
    "get_kenya_power_data (Response 503 (Inr scenario_A)) = ((JNull, False), [])"
    by (simp add: prod_eq_iff)
  from timeout have third: "snd (get_kenya_power_data (GetRaised ''Read timed out.'')) \<noteq> []"
    by blast
  from first key second third show ?thesis by simp
qed





end
